theory Spec2Isabelle
  imports Main "HOL-Library.Sublist"
begin

section \<open>The DOM as the code sees it\<close>

text \<open>
  \<^verbatim>\<open>field-detector.js\<close> defines one class, \<^verbatim>\<open>FieldDetector\<close>, whose methods read
  DOM elements and documents and never write to them. The embedding keeps the methods'
  names and bodies and makes three things explicit that JavaScript leaves implicit:

  \<^item> the receiver \<^verbatim>\<open>this\<close> is the first argument of every method, a record of the four
    vocabularies the constructor fills in;
  \<^item> the global \<^verbatim>\<open>document\<close> of the page the script runs in (the same object as
    \<^verbatim>\<open>window.document\<close>) is the argument \<open>global\<close> of every method that reads it,
    directly or through a method it calls;
  \<^item> an exception is a value: a method that can throw returns \<open>error + 'a\<close>.

  Strings are lists of code units below 256 (Latin-1), the range on which
  \<^verbatim>\<open>toLowerCase\<close> and the regular expressions of the code are modelled. An attribute that
  is not set reads as the empty string, as the DOM properties \<^verbatim>\<open>id\<close>, \<^verbatim>\<open>name\<close>,
  \<^verbatim>\<open>placeholder\<close> and \<^verbatim>\<open>type\<close> do; \<^verbatim>\<open>getAttribute\<close> alone returns \<^verbatim>\<open>null\<close>.
\<close>

datatype error = TypeError | SyntaxError

text \<open>
  An element carries the properties the code reads, its identity as a JavaScript object
  (\<open>nodeId\<close>: \<^verbatim>\<open>===\<close> and \<^verbatim>\<open>indexOf\<close> compare objects by identity, not by content) and
  its parent, so that \<^verbatim>\<open>closest\<close> can walk the ancestors. The selectors \<open>id'\<close> and
  \<open>method_attr\<close> are the properties \<^verbatim>\<open>id\<close> and \<^verbatim>\<open>method\<close> of the DOM.
\<close>

datatype element = Element
  (nodeId: nat)
  (localName: string)
  (type: string)
  (id': string)
  (name: string)
  (placeholder: string)
  (disabled: bool)
  (ariaLabel: "string option")
  (textContent: string)
  (action: string)
  (method_attr: string)
  (parentElement: "element option")

text \<open>\<^verbatim>\<open>a === b\<close> on two element objects.\<close>

definition sameObject :: "element \<Rightarrow> element \<Rightarrow> bool" where
  "sameObject a b = (nodeId a = nodeId b)"

text \<open>
  \<^verbatim>\<open>element.closest(sel)\<close> for a type selector \<open>sel\<close> (the code passes \<^verbatim>\<open>'form'\<close> and
  \<^verbatim>\<open>'label'\<close>): the element itself if it matches, else the nearest ancestor that does,
  else \<^verbatim>\<open>null\<close>.
\<close>

fun closest :: "string \<Rightarrow> element \<Rightarrow> element option" where
  "closest sel (Element n ln t i nm p d a tc ac m par) =
     (if ln = sel then Some (Element n ln t i nm p d a tc ac m par)
      else (case par of None \<Rightarrow> None | Some q \<Rightarrow> closest sel q))"

text \<open>
  A document answers the queries the code sends it. \<open>allElements\<close> is the node list of
  \<^verbatim>\<open>querySelectorAll('*')\<close>, in document order; the two other constant selectors of the
  code select from it by tag. \<open>querySelector\<close> is the document's answer to a selector the
  code builds at run time from an attribute value: the selector engine is the browser's,
  so it is a parameter here, and it may throw (a selector that does not parse is a
  \<^verbatim>\<open>SyntaxError\<close>).
\<close>

record document =
  allElements :: "element list"
  querySelector :: "string \<Rightarrow> error + element option"

definition querySelectorAll_any :: "document \<Rightarrow> element list" where
  "querySelectorAll_any doc = allElements doc"

definition querySelectorAll_input :: "document \<Rightarrow> element list" where
  "querySelectorAll_input doc = filter (\<lambda>e. localName e = ''input'') (allElements doc)"

definition querySelectorAll_input_textarea :: "document \<Rightarrow> element list" where
  "querySelectorAll_input_textarea doc =
     filter (\<lambda>e. localName e = ''input'' \<or> localName e = ''textarea'') (allElements doc)"

text \<open>\<^verbatim>\<open>array.indexOf(element)\<close>: the first position holding that object, or -1.\<close>

fun indexOf :: "element list \<Rightarrow> element \<Rightarrow> int" where
  "indexOf [] e = - 1"
| "indexOf (x # xs) e =
     (if sameObject x e then 0
      else (let i = indexOf xs e in if i < 0 then - 1 else i + 1))"

section \<open>Strings\<close>

definition charCode :: "char \<Rightarrow> nat" where
  "charCode c = of_char c"

text \<open>\<^verbatim>\<open>String.prototype.toLowerCase\<close> on code units below 256.\<close>

definition toLowerChar :: "char \<Rightarrow> char" where
  "toLowerChar c =
     (let n = charCode c
      in if (65 \<le> n \<and> n \<le> 90) \<or> (192 \<le> n \<and> n \<le> 222 \<and> n \<noteq> 215)
         then char_of (n + 32) else c)"

definition toLowerCase :: "string \<Rightarrow> string" where
  "toLowerCase s = map toLowerChar s"

text \<open>The character classes of the regular expressions in the code.\<close>

definition isLowerAZ :: "char \<Rightarrow> bool" where
  "isLowerAZ c = (97 \<le> charCode c \<and> charCode c \<le> 122)"

definition isUpperAZ :: "char \<Rightarrow> bool" where
  "isUpperAZ c = (65 \<le> charCode c \<and> charCode c \<le> 90)"

definition isDigit09 :: "char \<Rightarrow> bool" where
  "isDigit09 c = (48 \<le> charCode c \<and> charCode c \<le> 57)"

text \<open>\<^verbatim>\<open>\s\<close>: tab, line feed, vertical tab, form feed, carriage return, space, no-break space.\<close>

definition isWhiteSpace :: "char \<Rightarrow> bool" where
  "isWhiteSpace c = (charCode c \<in> {9, 10, 11, 12, 13, 32, 160})"

text \<open>\<^verbatim>\<open>s.replace(/[\s_-]/g, '')\<close>\<close>

definition removeSeparators :: "string \<Rightarrow> string" where
  "removeSeparators s =
     filter (\<lambda>c. \<not> (isWhiteSpace c \<or> c = CHR ''_'' \<or> c = CHR ''-'')) s"

text \<open>\<^verbatim>\<open>s.replace(/[^a-zA-Z0-9]+/g, '')\<close>\<close>

definition removeNonAlphanumeric :: "string \<Rightarrow> string" where
  "removeNonAlphanumeric s = filter (\<lambda>c. isLowerAZ c \<or> isUpperAZ c \<or> isDigit09 c) s"

text \<open>
  \<^verbatim>\<open>s.replace(/([a-z])([A-Z])/g, '$1 $2')\<close>: a space goes between a lower-case letter and
  the upper-case letter after it; the search goes on behind the two letters replaced.
\<close>

fun insertCamelCaseSpaces :: "string \<Rightarrow> string" where
  "insertCamelCaseSpaces (a # b # rest) =
     (if isLowerAZ a \<and> isUpperAZ b then a # CHR '' '' # b # insertCamelCaseSpaces rest
      else a # insertCamelCaseSpaces (b # rest))"
| "insertCamelCaseSpaces s = s"

text \<open>
  \<^verbatim>\<open>s.split(/[^a-z]/gi)\<close>: every character that is not a letter of either case separates
  two words; two separators in a row have an empty word between them.
\<close>

fun splitNonLetters :: "string \<Rightarrow> string list" where
  "splitNonLetters [] = [[]]"
| "splitNonLetters (c # cs) =
     (if isLowerAZ c \<or> isUpperAZ c
      then (case splitNonLetters cs of w # ws \<Rightarrow> (c # w) # ws | [] \<Rightarrow> [[c]])
      else [] # splitNonLetters cs)"

text \<open>\<^verbatim>\<open>s.includes(sub)\<close>: \<open>sub\<close> occurs in \<open>s\<close> as a run of consecutive characters.\<close>

fun string_includes :: "string \<Rightarrow> string \<Rightarrow> bool" where
  "string_includes [] sub = (sub = [])"
| "string_includes (c # cs) sub = (prefix sub (c # cs) \<or> string_includes cs sub)"

text \<open>\<^verbatim>\<open>array.filter(Boolean)\<close> on strings: the empty string is dropped.\<close>

definition filterBoolean :: "string list \<Rightarrow> string list" where
  "filterBoolean xs = filter (\<lambda>s. s \<noteq> []) xs"

section \<open>The detector\<close>

record detector =
  usernameFieldNames :: "string list"
  passwordFieldExcludeList :: "string list"
  excludedInputTypes :: "string list"
  searchFieldNames :: "string list"

text \<open>The constructor: \<^verbatim>\<open>new FieldDetector()\<close>.\<close>

definition new_FieldDetector :: detector where
  "new_FieldDetector = \<lparr>
     usernameFieldNames =
       [''username'', ''user name'', ''userid'', ''user id'', ''customer id'', ''login id'',
        ''login'', ''benutzername'', ''benutzer name'', ''benutzerid'', ''benutzer id'',
        ''email'', ''email address'', ''e-mail'', ''e-mail address'',
        ''email adresse'', ''e-mail adresse''],
     passwordFieldExcludeList =
       [''hint'', ''captcha'', ''findanything'', ''forgot'', ''totp'', ''totpcode'',
        ''2facode'', ''mfacode'', ''otc-code'', ''onetimecode'', ''otp-code'', ''otpcode'',
        ''security_code'', ''twofactor'', ''twofa'', ''twofactorcode'',
        ''verificationcode'', ''verification code''],
     excludedInputTypes =
       [''hidden'', ''submit'', ''reset'', ''button'', ''image'', ''file'', ''radio'',
        ''checkbox''],
     searchFieldNames = [''search'', ''query'', ''find'', ''go''] \<rparr>"

subsection \<open>Password fields\<close>

definition hasDisqualifyingValue :: "detector \<Rightarrow> element \<Rightarrow> bool" where
  "hasDisqualifyingValue this field =
     (let values = filterBoolean [id' field, name field, placeholder field]
      in list_ex (\<lambda>value.
           let cleanValue = removeSeparators (toLowerCase value)
           in list_ex (\<lambda>exclude. string_includes cleanValue exclude)
                (passwordFieldExcludeList this))
         values)"

definition isLikePassword :: "detector \<Rightarrow> element \<Rightarrow> bool" where
  "isLikePassword this field =
     (let values = filterBoolean [id' field, name field, placeholder field]
      in list_ex (\<lambda>value.
           let cleanValue = removeSeparators (toLowerCase value)
           in string_includes cleanValue ''password'' \<and>
              \<not> list_ex (\<lambda>exclude. string_includes cleanValue exclude)
                  (passwordFieldExcludeList this))
         values)"

text \<open>\<open>None\<close> is a \<^verbatim>\<open>null\<close> (or missing) argument.\<close>

definition isPasswordField :: "detector \<Rightarrow> element option \<Rightarrow> bool" where
  "isPasswordField this field =
     (case field of
        None \<Rightarrow> False
      | Some f \<Rightarrow>
          if disabled f then False
          else if type f = ''password'' then \<not> hasDisqualifyingValue this f
          else if type f = ''text'' \<and> isLikePassword this f
            then \<not> hasDisqualifyingValue this f
          else False)"

text \<open>
  The loop of \<^verbatim>\<open>detectPasswordFields\<close>: \<open>passwordFields\<close> is the array built so far. The
  parameter \<open>document\<close> is \<open>None\<close> when the caller leaves it out, and defaults to
  \<^verbatim>\<open>window.document\<close>.
\<close>

fun detectPasswordFields_loop ::
  "detector \<Rightarrow> element list \<Rightarrow> element list \<Rightarrow> element list" where
  "detectPasswordFields_loop this passwordFields [] = passwordFields"
| "detectPasswordFields_loop this passwordFields (field # allInputs) =
     detectPasswordFields_loop this
       (if isPasswordField this (Some field) then passwordFields @ [field]
        else passwordFields)
       allInputs"

definition detectPasswordFields ::
  "detector \<Rightarrow> document \<Rightarrow> document option \<Rightarrow> element list" where
  "detectPasswordFields this global document =
     (let doc = (case document of None \<Rightarrow> global | Some d \<Rightarrow> d)
      in detectPasswordFields_loop this [] (querySelectorAll_input_textarea doc))"

subsection \<open>Username fields\<close>

definition isSearchField :: "detector \<Rightarrow> element \<Rightarrow> bool" where
  "isSearchField this field =
     (let values = filterBoolean [type field, name field, id' field, placeholder field]
      in list_ex (\<lambda>value.
           let words = splitNonLetters (insertCamelCaseSpaces (toLowerCase value))
           in list_ex (\<lambda>word. word \<in> set (searchFieldNames this)) words)
         values)"

text \<open>
  \<^verbatim>\<open>getFieldLabel\<close> and \<^verbatim>\<open>getElementIndex\<close> have no document parameter: the name
  \<^verbatim>\<open>document\<close> in their bodies is the global one.
\<close>

text \<open>The template literal \<^verbatim>\<open>`label[for="${id}"]`\<close>.\<close>

definition labelForSelector :: "string \<Rightarrow> string" where
  \<open>labelForSelector i = ''label[for="'' @ i @ ''"]''\<close>

definition getFieldLabel :: "document \<Rightarrow> element \<Rightarrow> error + string" where
  \<open>getFieldLabel global field =
     (let parentLabel =
        (case closest ''label'' field of
           Some parentLabel \<Rightarrow> Inr (textContent parentLabel)
         | None \<Rightarrow> Inr '''')
      in if id' field \<noteq> ''''
         then (case querySelector global (labelForSelector (id' field)) of
                 Inl e \<Rightarrow> Inl e
               | Inr (Some label) \<Rightarrow> Inr (textContent label)
               | Inr None \<Rightarrow> parentLabel)
         else parentLabel)\<close>

definition getElementIndex :: "document \<Rightarrow> element \<Rightarrow> int" where
  "getElementIndex global element = indexOf (querySelectorAll_any global) element"

definition matchesUsernamePattern :: "detector \<Rightarrow> document \<Rightarrow> element \<Rightarrow> error + bool" where
  "matchesUsernamePattern this global field =
     (case getFieldLabel global field of
        Inl e \<Rightarrow> Inl e
      | Inr label \<Rightarrow>
          let attributes =
                filterBoolean
                  ([id' field, name field, placeholder field, label] @
                   (case ariaLabel field of None \<Rightarrow> [] | Some a \<Rightarrow> [a]))
          in Inr (list_ex (\<lambda>attr.
                    let cleanAttr = removeNonAlphanumeric (toLowerCase attr)
                    in list_ex (\<lambda>name.
                         cleanAttr = removeNonAlphanumeric name \<or>
                         string_includes cleanAttr (removeNonAlphanumeric name))
                       (usernameFieldNames this))
                  attributes))"

definition isUsernameField ::
  "detector \<Rightarrow> document \<Rightarrow> element option \<Rightarrow> element option \<Rightarrow> error + bool" where
  "isUsernameField this global field passwordField =
     (case field of
        None \<Rightarrow> Inr False
      | Some f \<Rightarrow>
          if disabled f \<or> type f \<in> set (excludedInputTypes this) then Inr False
          else if type f \<notin> set [''text'', ''email'', ''tel''] then Inr False
          else if isSearchField this f then Inr False
          else if (case passwordField of
                     None \<Rightarrow> False
                   | Some p \<Rightarrow> getElementIndex global f \<ge> getElementIndex global p)
            then Inr False
          else matchesUsernamePattern this global f)"

text \<open>
  The loop of \<^verbatim>\<open>detectUsernameFields\<close>; an exception thrown by the test of one field
  ends the loop and the call.
\<close>

fun detectUsernameFields_loop ::
  "detector \<Rightarrow> document \<Rightarrow> element option \<Rightarrow> element list \<Rightarrow> element list \<Rightarrow>
   error + element list" where
  "detectUsernameFields_loop this global passwordField usernameFields [] = Inr usernameFields"
| "detectUsernameFields_loop this global passwordField usernameFields (field # allInputs) =
     (case isUsernameField this global (Some field) passwordField of
        Inl e \<Rightarrow> Inl e
      | Inr b \<Rightarrow>
          detectUsernameFields_loop this global passwordField
            (if b then usernameFields @ [field] else usernameFields) allInputs)"

definition detectUsernameFields ::
  "detector \<Rightarrow> document \<Rightarrow> document option \<Rightarrow> element option \<Rightarrow> error + element list" where
  "detectUsernameFields this global document passwordField =
     (let doc = (case document of None \<Rightarrow> global | Some d \<Rightarrow> d)
      in detectUsernameFields_loop this global passwordField [] (querySelectorAll_input doc))"

subsection \<open>Pairing\<close>

text \<open>\<^verbatim>\<open>field.closest('form') === form\<close>, for a \<open>form\<close> that is an element.\<close>

definition closestFormIs :: "element \<Rightarrow> element \<Rightarrow> bool" where
  "closestFormIs form field =
     (case closest ''form'' field of None \<Rightarrow> False | Some g \<Rightarrow> sameObject g form)"

text \<open>
  \<^verbatim>\<open>passwordField.closest\<close> is the first thing the body evaluates: on \<^verbatim>\<open>null\<close> it
  throws a \<^verbatim>\<open>TypeError\<close>.
\<close>

definition findUsernameForPassword ::
  "detector \<Rightarrow> document \<Rightarrow> element option \<Rightarrow> document option \<Rightarrow> error + element option" where
  "findUsernameForPassword this global passwordField document =
     (case passwordField of
        None \<Rightarrow> Inl TypeError
      | Some p \<Rightarrow>
          let doc = (case document of None \<Rightarrow> global | Some d \<Rightarrow> d);
              form = closest ''form'' p
          in (case detectUsernameFields this global (Some doc) (Some p) of
                Inl e \<Rightarrow> Inl e
              | Inr candidates \<Rightarrow>
                  let filteredCandidates =
                        (case form of
                           Some fm \<Rightarrow> filter (closestFormIs fm) candidates
                         | None \<Rightarrow> candidates)
                  in Inr (if length filteredCandidates > 0
                          then Some (filteredCandidates ! (length filteredCandidates - 1))
                          else None)))"

record loginForm =
  form :: "element option"
  passwordField :: element
  usernameField :: "element option"
  formAction :: "string option"
  formMethod :: "string option"

fun getLoginForms_loop ::
  "detector \<Rightarrow> document \<Rightarrow> document \<Rightarrow> loginForm list \<Rightarrow> element list \<Rightarrow>
   error + loginForm list" where
  "getLoginForms_loop this global doc forms [] = Inr forms"
| "getLoginForms_loop this global doc forms (pf # passwordFields) =
     (case findUsernameForPassword this global (Some pf) (Some doc) of
        Inl e \<Rightarrow> Inl e
      | Inr uf \<Rightarrow>
          let fm = closest ''form'' pf
          in getLoginForms_loop this global doc
               (forms @
                [\<lparr> form = fm, passwordField = pf, usernameField = uf,
                   formAction = (case fm of Some g \<Rightarrow> Some (action g) | None \<Rightarrow> None),
                   formMethod = (case fm of Some g \<Rightarrow> Some (method_attr g) | None \<Rightarrow> None) \<rparr>])
               passwordFields)"

definition getLoginForms :: "detector \<Rightarrow> document \<Rightarrow> document option \<Rightarrow> error + loginForm list" where
  "getLoginForms this global document =
     (let doc = (case document of None \<Rightarrow> global | Some d \<Rightarrow> d)
      in getLoginForms_loop this global doc [] (detectPasswordFields this global (Some doc)))"

section \<open>Notions of the specification\<close>

text \<open>
  The username candidates of a password field \<open>pw\<close> in a document, in the words of the
  specification: the inputs of the document that pass the Username Classifier with \<open>pw\<close>
  as context and, when \<open>pw\<close> has an enclosing form, share that form. The list is in
  document order.
\<close>

definition usernameCandidates ::
  "detector \<Rightarrow> document \<Rightarrow> document \<Rightarrow> element \<Rightarrow> element list" where
  "usernameCandidates this global doc pw =
     filter (\<lambda>f. isUsernameField this global (Some f) (Some pw) = Inr True \<and>
                 (case closest ''form'' pw of None \<Rightarrow> True | Some fm \<Rightarrow> closestFormIs fm f))
       (querySelectorAll_input doc)"

text \<open>A vocabulary entry that contains a character which \<open>removeSeparators\<close> deletes.\<close>

definition hasSeparator :: "string \<Rightarrow> bool" where
  "hasSeparator s = list_ex (\<lambda>c. isWhiteSpace c \<or> c = CHR ''_'' \<or> c = CHR ''-'') s"

section \<open>Example pages\<close>

text \<open>A document without \<^verbatim>\<open>label\<close> elements answers every label query with \<^verbatim>\<open>null\<close>.\<close>

definition noLabels :: "string \<Rightarrow> error + element option" where
  "noLabels selector = Inr None"

text \<open>
  \<^verbatim>\<open><form action="https://example.org/login" method="post"><div></div>\<close>
  \<^verbatim>\<open><input type="text" name="username"><br><input type="email" name="email">\<close>
  \<^verbatim>\<open><input type="password" name="pass"></form>\<close>
\<close>

definition loginFormEl :: element where
  "loginFormEl =
     Element 0 ''form'' '''' '''' '''' '''' False None ''''
       ''https://example.org/login'' ''post'' None"

definition rowDiv :: element where
  "rowDiv =
     Element 1 ''div'' '''' '''' '''' '''' False None '''' '''' '''' (Some loginFormEl)"

definition usernameInput :: element where
  "usernameInput =
     Element 2 ''input'' ''text'' '''' ''username'' '''' False None '''' '''' ''''
       (Some loginFormEl)"

definition lineBreak :: element where
  "lineBreak =
     Element 3 ''br'' '''' '''' '''' '''' False None '''' '''' '''' (Some loginFormEl)"

definition emailInput :: element where
  "emailInput =
     Element 4 ''input'' ''email'' '''' ''email'' '''' False None '''' '''' ''''
       (Some loginFormEl)"

definition passwordInput :: element where
  "passwordInput =
     Element 5 ''input'' ''password'' '''' ''pass'' '''' False None '''' '''' ''''
       (Some loginFormEl)"

definition loginPage :: document where
  "loginPage =
     \<lparr> allElements = [loginFormEl, rowDiv, usernameInput, lineBreak, emailInput, passwordInput],
       querySelector = noLabels \<rparr>"

text \<open>A document with no element, such as the page that embeds the login page in a frame.\<close>

definition emptyPage :: document where
  "emptyPage = \<lparr> allElements = [], querySelector = noLabels \<rparr>"

text \<open>
  \<^verbatim>\<open><label for="u">Username</label><input type="text" id="u">\<close>: the document
  answers the query for the label of \<^verbatim>\<open>u\<close> with the label element.
\<close>

definition userLabel :: element where
  "userLabel =
     Element 20 ''label'' '''' '''' '''' '''' False None ''Username'' '''' '''' None"

definition labelledInput :: element where
  "labelledInput =
     Element 21 ''input'' ''text'' ''u'' '''' '''' False None '''' '''' '''' None"

definition labelledPage :: document where
  "labelledPage =
     \<lparr> allElements = [userLabel, labelledInput],
       querySelector =
         (\<lambda>selector. if selector = labelForSelector ''u'' then Inr (Some userLabel)
                     else Inr None) \<rparr>"

text \<open>\<^verbatim>\<open><input type="text" name="siteSearch" placeholder="Email">\<close>\<close>

definition siteSearchInput :: element where
  "siteSearchInput =
     Element 6 ''input'' ''text'' '''' ''siteSearch'' ''Email'' False None '''' '''' '''' None"

text \<open>\<^verbatim>\<open><input type="password" name="security_code">\<close>\<close>

definition securityCodeInput :: element where
  "securityCodeInput =
     Element 7 ''input'' ''password'' '''' ''security_code'' '''' False None '''' '''' '''' None"

text \<open>\<^verbatim>\<open><input type="text" name="password_hint">\<close>\<close>

definition passwordHintInput :: element where
  "passwordHintInput =
     Element 8 ''input'' ''text'' '''' ''password_hint'' '''' False None '''' '''' '''' None"

text \<open>
  \<^verbatim>\<open><input type="text" name="login">\<close>
  \<^verbatim>\<open><form action="https://example.org/session" method="post">\<close>
  \<^verbatim>\<open><input type="email" name="email"><input type="password" name="secret"></form>\<close>,
  and the same page without the email input.
\<close>

definition outsideLogin :: element where
  "outsideLogin =
     Element 10 ''input'' ''text'' '''' ''login'' '''' False None '''' '''' '''' None"

definition innerForm :: element where
  "innerForm =
     Element 11 ''form'' '''' '''' '''' '''' False None ''''
       ''https://example.org/session'' ''post'' None"

definition innerEmail :: element where
  "innerEmail =
     Element 12 ''input'' ''email'' '''' ''email'' '''' False None '''' '''' ''''
       (Some innerForm)"

definition innerPassword :: element where
  "innerPassword =
     Element 13 ''input'' ''password'' '''' ''secret'' '''' False None '''' '''' ''''
       (Some innerForm)"

definition twoScopesPage :: document where
  "twoScopesPage =
     \<lparr> allElements = [outsideLogin, innerForm, innerEmail, innerPassword],
       querySelector = noLabels \<rparr>"

definition outsideOnlyPage :: document where
  "outsideOnlyPage =
     \<lparr> allElements = [outsideLogin, innerForm, innerPassword],
       querySelector = noLabels \<rparr>"






section \<open>Lemmas on strings and lists\<close>

lemma string_includes_set: "string_includes s sub \<Longrightarrow> set sub \<subseteq> set s"
proof (induction s)
  case Nil
  then show ?case by simp
next
  case (Cons c cs)
  from Cons.prems have "prefix sub (c # cs) \<or> string_includes cs sub" by simp
  then show ?case
  proof
    assume "prefix sub (c # cs)"
    then show ?thesis by (rule set_mono_prefix)
  next
    assume "string_includes cs sub"
    with Cons.IH show ?thesis by auto
  qed
qed

lemma excluded_by_separator:
  assumes "hasSeparator exclude"
  shows "\<not> string_includes (removeSeparators (toLowerCase value)) exclude"
proof
  assume "string_includes (removeSeparators (toLowerCase value)) exclude"
  then have sub: "set exclude \<subseteq> set (removeSeparators (toLowerCase value))"
    by (rule string_includes_set)
  from assms obtain c where "c \<in> set exclude"
    and "isWhiteSpace c \<or> c = CHR ''_'' \<or> c = CHR ''-''"
    by (auto simp: hasSeparator_def list_ex_iff)
  with sub show False by (auto simp: removeSeparators_def)
qed

lemma list_ex_drop_separated:
  "list_ex (\<lambda>exclude. string_includes (removeSeparators (toLowerCase value)) exclude)
     (filter (\<lambda>e. \<not> hasSeparator e) xs) =
   list_ex (\<lambda>exclude. string_includes (removeSeparators (toLowerCase value)) exclude) xs"
  using excluded_by_separator by (auto simp: list_ex_iff)

lemma hasDisqualifyingValue_drop_separated:
  "hasDisqualifyingValue
     (this\<lparr>passwordFieldExcludeList :=
             filter (\<lambda>e. \<not> hasSeparator e) (passwordFieldExcludeList this)\<rparr>) field =
   hasDisqualifyingValue this field"
  by (simp add: hasDisqualifyingValue_def Let_def list_ex_drop_separated)

lemma toLowerChar_not_upper: "\<not> isUpperAZ (toLowerChar c)"
  by (auto simp: toLowerChar_def isUpperAZ_def charCode_def Let_def)

lemma insertCamelCaseSpaces_no_upper:
  "\<forall>c \<in> set s. \<not> isUpperAZ c \<Longrightarrow> insertCamelCaseSpaces s = s"
  by (induction s rule: insertCamelCaseSpaces.induct) auto

lemma insertCamelCaseSpaces_toLowerCase:
  "insertCamelCaseSpaces (toLowerCase s) = toLowerCase s"
  by (rule insertCamelCaseSpaces_no_upper) (simp add: toLowerCase_def toLowerChar_not_upper)





lemma lastOrNone:
  "(if length xs > 0 then Some (xs ! (length xs - 1)) else None) =
   (if xs = [] then None else Some (last xs))"
  by (simp add: last_conv_nth)

section \<open>Lemmas on the loops\<close>

lemma detectPasswordFields_loop_filter:
  "detectPasswordFields_loop this acc xs = acc @ filter (\<lambda>f. isPasswordField this (Some f)) xs"
  by (induction xs arbitrary: acc) auto

lemma detectUsernameFields_loop_Inr:
  "detectUsernameFields_loop this g pw acc xs = Inr r \<Longrightarrow>
   r = acc @ filter (\<lambda>f. isUsernameField this g (Some f) pw = Inr True) xs"
proof (induction xs arbitrary: acc)
  case Nil
  then show ?case by simp
next
  case (Cons x xs)
  from Cons.prems obtain b where b: "isUsernameField this g (Some x) pw = Inr b"
    and r: "detectUsernameFields_loop this g pw (if b then acc @ [x] else acc) xs = Inr r"
    by (auto split: sum.splits)
  from Cons.IH [OF r] b show ?case by simp
qed


lemma detectUsernameFields_Inr:
  "detectUsernameFields this g (Some d) pw = Inr r \<Longrightarrow>
   r = filter (\<lambda>f. isUsernameField this g (Some f) pw = Inr True) (querySelectorAll_input d)"
  unfolding detectUsernameFields_def
  by (auto dest: detectUsernameFields_loop_Inr)


lemma findUsernameForPassword_default:
  "findUsernameForPassword this g p None = findUsernameForPassword this g p (Some g)"
  by (cases p) (simp_all add: findUsernameForPassword_def)

text \<open>What \<^verbatim>\<open>findUsernameForPassword\<close> returns, when it returns.\<close>

lemma findUsernameForPassword_Inr:
  assumes "findUsernameForPassword this g (Some pw) (Some d) = Inr r"
  shows "r = (if usernameCandidates this g d pw = [] then None
              else Some (last (usernameCandidates this g d pw)))"
proof -
  from assms obtain cs where cs: "detectUsernameFields this g (Some d) (Some pw) = Inr cs"
    by (auto simp: findUsernameForPassword_def Let_def split: sum.splits)
  have C: "usernameCandidates this g d pw =
        (case closest ''form'' pw of Some fm \<Rightarrow> filter (closestFormIs fm) cs | None \<Rightarrow> cs)"
    unfolding usernameCandidates_def detectUsernameFields_Inr [OF cs]
    by (cases "closest ''form'' pw") (simp_all add: conj_commute)
  from assms cs show ?thesis
    unfolding C findUsernameForPassword_def
    by (simp add: Let_def lastOrNone del: length_greater_0_conv)
qed


lemma usernameCandidates_member:
  "u \<in> set (usernameCandidates this g d pw) \<Longrightarrow>
   u \<in> set (querySelectorAll_input d) \<and>
   isUsernameField this g (Some u) (Some pw) = Inr True \<and>
   (\<forall>fm. closest ''form'' pw = Some fm \<longrightarrow> closestFormIs fm u)"
  by (auto simp: usernameCandidates_def)


text \<open>
  What \<^verbatim>\<open>getLoginForms\<close> has pushed when its loop returns: one record for each password
  field, in order, holding the result of \<^verbatim>\<open>findUsernameForPassword\<close> for that field.
\<close>

lemma getLoginForms_loop_Inr:
  "getLoginForms_loop this g d acc pfs = Inr rs \<Longrightarrow>
   \<exists>new. rs = acc @ new \<and> map passwordField new = pfs \<and>
     (\<forall>r \<in> set new.
        findUsernameForPassword this g (Some (passwordField r)) (Some d) = Inr (usernameField r))"
proof (induction pfs arbitrary: acc)
  case Nil
  then show ?case by simp
next
  case (Cons pf pfs)
  show ?case
  proof (cases "findUsernameForPassword this g (Some pf) (Some d)")
    case (Inl e)
    with Cons.prems show ?thesis by simp
  next
    case (Inr uf)
    define r where "r = \<lparr> form = closest ''form'' pf, passwordField = pf, usernameField = uf,
       formAction = (case closest ''form'' pf of Some g \<Rightarrow> Some (action g) | None \<Rightarrow> None),
       formMethod = (case closest ''form'' pf of Some g \<Rightarrow> Some (method_attr g) | None \<Rightarrow> None) \<rparr>"
    have pr: "passwordField r = pf" and ur: "usernameField r = uf"
      by (simp_all add: r_def)
    from Cons.prems Inr have "getLoginForms_loop this g d (acc @ [r]) pfs = Inr rs"
      by (simp add: Let_def r_def)
    from Cons.IH [OF this] obtain new where new: "rs = (acc @ [r]) @ new"
      "map passwordField new = pfs"
      "\<forall>r \<in> set new.
          findUsernameForPassword this g (Some (passwordField r)) (Some d) = Inr (usernameField r)"
      by blast
    show ?thesis
    proof (intro exI conjI)
      show "rs = acc @ (r # new)" using new(1) by simp
      show "map passwordField (r # new) = pf # pfs" using new(2) pr by simp
      show "\<forall>x \<in> set (r # new).
          findUsernameForPassword this g (Some (passwordField x)) (Some d) = Inr (usernameField x)"
        using new(3) Inr pr ur by simp
    qed
  qed
qed

section \<open>The claims\<close>

subsection \<open>C1: the global document\<close>

text \<open>
  C1. The specification has the username entry points depend on the supplied document
  only. The code reads the global document in \<^verbatim>\<open>getElementIndex\<close> and \<^verbatim>\<open>getFieldLabel\<close>: with the login
  page supplied and the same password field, the three entry points return one result
  when the login page is also the global document and another when the global document
  is the empty page (both indexes are then -1, and every input is rejected as not
  preceding the password field). Without a password field the label makes the
  difference: the input of the labelled page is a username field by the text of its
  label, and the label is looked up in the global document.
\<close>

theorem global_document_changes_results:
  "detectUsernameFields new_FieldDetector loginPage (Some loginPage) (Some passwordInput)
     = Inr [usernameInput, emailInput] \<and>
   detectUsernameFields new_FieldDetector emptyPage (Some loginPage) (Some passwordInput)
     = Inr [] \<and>
   findUsernameForPassword new_FieldDetector loginPage (Some passwordInput) (Some loginPage)
     = Inr (Some emailInput) \<and>
   findUsernameForPassword new_FieldDetector emptyPage (Some passwordInput) (Some loginPage)
     = Inr None \<and>
   getLoginForms new_FieldDetector loginPage (Some loginPage)
     = Inr [\<lparr> form = Some loginFormEl, passwordField = passwordInput,
              usernameField = Some emailInput,
              formAction = Some ''https://example.org/login'',
              formMethod = Some ''post'' \<rparr>] \<and>
   getLoginForms new_FieldDetector emptyPage (Some loginPage)
     = Inr [\<lparr> form = Some loginFormEl, passwordField = passwordInput,
              usernameField = None,
              formAction = Some ''https://example.org/login'',
              formMethod = Some ''post'' \<rparr>] \<and>
   detectUsernameFields new_FieldDetector labelledPage (Some labelledPage) None
     = Inr [labelledInput] \<and>
   detectUsernameFields new_FieldDetector emptyPage (Some labelledPage) None
     = Inr []"
proof (intro conjI)
  show "detectUsernameFields new_FieldDetector labelledPage (Some labelledPage) None
     = Inr [labelledInput]" by code_simp
  show "detectUsernameFields new_FieldDetector emptyPage (Some labelledPage) None
     = Inr []" by code_simp
  show "detectUsernameFields new_FieldDetector loginPage (Some loginPage) (Some passwordInput)
     = Inr [usernameInput, emailInput]" by code_simp
  show "detectUsernameFields new_FieldDetector emptyPage (Some loginPage) (Some passwordInput)
     = Inr []" by code_simp
  show "findUsernameForPassword new_FieldDetector loginPage (Some passwordInput)
     (Some loginPage) = Inr (Some emailInput)" by code_simp
  show "findUsernameForPassword new_FieldDetector emptyPage (Some passwordInput)
     (Some loginPage) = Inr None" by code_simp
  show "getLoginForms new_FieldDetector loginPage (Some loginPage)
     = Inr [\<lparr> form = Some loginFormEl, passwordField = passwordInput,
              usernameField = Some emailInput,
              formAction = Some ''https://example.org/login'',
              formMethod = Some ''post'' \<rparr>]" by code_simp
  show "getLoginForms new_FieldDetector emptyPage (Some loginPage)
     = Inr [\<lparr> form = Some loginFormEl, passwordField = passwordInput,
              usernameField = None,
              formAction = Some ''https://example.org/login'',
              formMethod = Some ''post'' \<rparr>]" by code_simp
qed

subsection \<open>C2: camel case in the search-field test\<close>

text \<open>
  C2. The specification has a camel-case name such as \<^verbatim>\<open>siteSearch\<close> split into \<^verbatim>\<open>site\<close> and
  \<^verbatim>\<open>search\<close>, and the field rejected. \<^verbatim>\<open>isSearchField\<close> lowers the value before it looks
  for a lower-case letter followed by an upper-case one, so the replacement changes no
  value: \<^verbatim>\<open>siteSearch\<close> gives the one word \<^verbatim>\<open>sitesearch\<close>, where splitting before lowering
  gives \<^verbatim>\<open>site\<close> and \<^verbatim>\<open>search\<close>. The input with that name and the placeholder \<^verbatim>\<open>Email\<close>
  is not a search field and is accepted as a username field.
\<close>

theorem camelCase_search_field_not_rejected:
  "insertCamelCaseSpaces (toLowerCase s) = toLowerCase s \<and>
   splitNonLetters (insertCamelCaseSpaces (toLowerCase ''siteSearch'')) = [''sitesearch''] \<and>
   splitNonLetters (toLowerCase (insertCamelCaseSpaces ''siteSearch'')) = [''site'', ''search''] \<and>
   isSearchField new_FieldDetector siteSearchInput = False \<and>
   isUsernameField new_FieldDetector emptyPage (Some siteSearchInput) None = Inr True"
proof (intro conjI)
  show "insertCamelCaseSpaces (toLowerCase s) = toLowerCase s"
    by (rule insertCamelCaseSpaces_toLowerCase)
  show "splitNonLetters (insertCamelCaseSpaces (toLowerCase ''siteSearch'')) = [''sitesearch'']"
    by code_simp
  show "splitNonLetters (toLowerCase (insertCamelCaseSpaces ''siteSearch''))
          = [''site'', ''search'']"
    by code_simp
  show "isSearchField new_FieldDetector siteSearchInput = False" by code_simp
  show "isUsernameField new_FieldDetector emptyPage (Some siteSearchInput) None = Inr True"
    by code_simp
qed

subsection \<open>C3: absent arguments\<close>




subsection \<open>C4: the closest preceding candidate\<close>




subsection \<open>C5: pairing stays inside the enclosing form\<close>

text \<open>
  C5. For every password field that has an enclosing form, a field returned by
  \<^verbatim>\<open>findUsernameForPassword\<close> has that same form as its enclosing form: a candidate
  outside the form is never returned, whether the document is supplied or defaulted.
\<close>

theorem findUsernameForPassword_same_form:
  assumes "closest ''form'' pw = Some fm"
      and "findUsernameForPassword this g (Some pw) d = Inr (Some u)"
  shows "\<exists>fu. closest ''form'' u = Some fu \<and> sameObject fu fm"
proof -
  define doc where "doc = (case d of None \<Rightarrow> g | Some x \<Rightarrow> x)"
  from assms(2) have r: "findUsernameForPassword this g (Some pw) (Some doc) = Inr (Some u)"
    by (cases d) (simp_all add: doc_def findUsernameForPassword_default)
  from findUsernameForPassword_Inr [OF r]
  have ne: "usernameCandidates this g doc pw \<noteq> []"
    and u: "u = last (usernameCandidates this g doc pw)"
    by (auto split: if_splits)
  from ne u have "u \<in> set (usernameCandidates this g doc pw)" by simp
  with assms(1) have "closestFormIs fm u"
    by (auto dest: usernameCandidates_member)
  then show ?thesis
    by (auto simp: closestFormIs_def split: option.splits)
qed

text \<open>
  With an email input inside the form, that input is returned. Without it, the login
  input in front of the form passes the Username Classifier and is still not returned.
\<close>

theorem findUsernameForPassword_same_form_witness:
  "closest ''form'' innerPassword = Some innerForm \<and>
   findUsernameForPassword new_FieldDetector twoScopesPage (Some innerPassword)
     (Some twoScopesPage) = Inr (Some innerEmail) \<and>
   (\<exists>fu. closest ''form'' innerEmail = Some fu \<and> sameObject fu innerForm) \<and>
   isUsernameField new_FieldDetector outsideOnlyPage (Some outsideLogin) (Some innerPassword)
     = Inr True \<and>
   findUsernameForPassword new_FieldDetector outsideOnlyPage (Some innerPassword)
     (Some outsideOnlyPage) = Inr None"
proof -
  have a: "closest ''form'' innerPassword = Some innerForm" by code_simp
  have b: "findUsernameForPassword new_FieldDetector twoScopesPage (Some innerPassword)
             (Some twoScopesPage) = Inr (Some innerEmail)" by code_simp
  have c: "isUsernameField new_FieldDetector outsideOnlyPage (Some outsideLogin)
             (Some innerPassword) = Inr True" by code_simp
  have d: "findUsernameForPassword new_FieldDetector outsideOnlyPage (Some innerPassword)
             (Some outsideOnlyPage) = Inr None" by code_simp
  note e = findUsernameForPassword_same_form [OF a b]
  from a b e c d show ?thesis by simp
qed

subsection \<open>C6: a username field precedes its password field\<close>

text \<open>
  C6. For every field \<open>f\<close> and every supplied password field \<open>p\<close>: if the document order
  index of \<open>f\<close>, as \<^verbatim>\<open>getElementIndex\<close> computes it, is not strictly less than that of
  \<open>p\<close>, then \<^verbatim>\<open>isUsernameField(f, p)\<close> returns false.
\<close>

theorem isUsernameField_must_precede:
  "getElementIndex g f \<ge> getElementIndex g p \<Longrightarrow>
   isUsernameField this g (Some f) (Some p) = Inr False"
  by (simp add: isUsernameField_def)

text \<open>
  On the login page the email input (index 4) does not precede the username input
  (index 2): it is rejected relative to it, though it is a username field on its own.
\<close>

theorem isUsernameField_must_precede_witness:
  "getElementIndex loginPage emailInput \<ge> getElementIndex loginPage usernameInput \<and>
   isUsernameField new_FieldDetector loginPage (Some emailInput) (Some usernameInput) = Inr False \<and>
   isUsernameField new_FieldDetector loginPage (Some emailInput) None = Inr True"
proof -
  have h: "getElementIndex loginPage emailInput \<ge> getElementIndex loginPage usernameInput"
    by code_simp
  have t: "isUsernameField new_FieldDetector loginPage (Some emailInput) None = Inr True"
    by code_simp
  from h isUsernameField_must_precede [OF h, of new_FieldDetector] t show ?thesis by simp
qed

subsection \<open>C7: a password hint is not a password field\<close>

text \<open>
  C7. For every field with type \<^verbatim>\<open>text\<close> and name \<^verbatim>\<open>password_hint\<close>, whatever its other
  attributes: the separator-stripped name contains \<^verbatim>\<open>password\<close>, the field has a
  disqualifying value (the name also contains the exclude entry \<^verbatim>\<open>hint\<close>), and
  \<^verbatim>\<open>isPasswordField\<close> returns false.
\<close>

theorem password_hint_not_password:
  assumes "type f = ''text''" and "name f = ''password_hint''"
  shows "string_includes (removeSeparators (toLowerCase (name f))) ''password'' \<and>
         hasDisqualifyingValue new_FieldDetector f \<and>
         isPasswordField new_FieldDetector (Some f) = False"
proof -
  have p: "string_includes (removeSeparators (toLowerCase ''password_hint'')) ''password''"
    by code_simp
  have h: "string_includes (removeSeparators (toLowerCase ''password_hint'')) ''hint''"
    by code_simp
  have e: "''hint'' \<in> set (passwordFieldExcludeList new_FieldDetector)"
    by (simp add: new_FieldDetector_def)
  have "name f \<in> set (filterBoolean [id' f, name f, placeholder f])"
    using assms(2) by (simp add: filterBoolean_def)
  with h e assms(2) have d: "hasDisqualifyingValue new_FieldDetector f"
    unfolding hasDisqualifyingValue_def Let_def list_ex_iff by metis
  with p assms(2) show ?thesis
    by (simp add: isPasswordField_def)
qed

theorem password_hint_not_password_witness:
  "type passwordHintInput = ''text'' \<and> name passwordHintInput = ''password_hint'' \<and>
   hasDisqualifyingValue new_FieldDetector passwordHintInput \<and>
   isPasswordField new_FieldDetector (Some passwordHintInput) = False"
proof -
  have a: "type passwordHintInput = ''text''" by (simp add: passwordHintInput_def)
  have b: "name passwordHintInput = ''password_hint''" by (simp add: passwordHintInput_def)
  from a b password_hint_not_password [OF a b] show ?thesis by simp
qed

subsection \<open>C8: the records of \<^verbatim>\<open>getLoginForms\<close>\<close>

text \<open>
  C8. For every document, when \<^verbatim>\<open>getLoginForms\<close> returns, its records are the detected
  password fields, one record for each in the same order; the password field of every
  record satisfies \<^verbatim>\<open>isPasswordField\<close>, and the username field of a record is absent
  exactly when its password field has no username candidate.
\<close>

theorem getLoginForms_records:
  assumes "getLoginForms this g (Some d) = Inr rs"
  shows "map passwordField rs = detectPasswordFields this g (Some d) \<and>
         (\<forall>r \<in> set rs.
            isPasswordField this (Some (passwordField r)) \<and>
            (usernameField r = None \<longleftrightarrow>
               usernameCandidates this g d (passwordField r) = []))"
proof -
  from assms
  have "getLoginForms_loop this g d [] (detectPasswordFields this g (Some d)) = Inr rs"
    by (simp add: getLoginForms_def)
  from getLoginForms_loop_Inr [OF this]
  have pfs: "map passwordField rs = detectPasswordFields this g (Some d)"
    and ufs: "\<forall>r \<in> set rs.
        findUsernameForPassword this g (Some (passwordField r)) (Some d) = Inr (usernameField r)"
    by simp_all
  have "isPasswordField this (Some (passwordField r)) \<and>
      (usernameField r = None \<longleftrightarrow> usernameCandidates this g d (passwordField r) = [])"
    if r: "r \<in> set rs" for r
  proof
    from r have "passwordField r \<in> set (map passwordField rs)" by simp
    then show "isPasswordField this (Some (passwordField r))"
      unfolding pfs detectPasswordFields_def
      by (simp add: detectPasswordFields_loop_filter)
  next
    from r ufs have "findUsernameForPassword this g (Some (passwordField r)) (Some d)
                     = Inr (usernameField r)" by simp
    from findUsernameForPassword_Inr [OF this]
    show "usernameField r = None \<longleftrightarrow> usernameCandidates this g d (passwordField r) = []"
      by (simp split: if_splits)
  qed
  with pfs show ?thesis by simp
qed

text \<open>
  The login page yields one record, for its one password field, with the email input as
  username field: the candidate list of that password field is not empty.
\<close>

theorem getLoginForms_records_witness:
  "getLoginForms new_FieldDetector loginPage (Some loginPage) =
     Inr [\<lparr> form = Some loginFormEl, passwordField = passwordInput,
            usernameField = Some emailInput,
            formAction = Some ''https://example.org/login'',
            formMethod = Some ''post'' \<rparr>] \<and>
   detectPasswordFields new_FieldDetector loginPage (Some loginPage) = [passwordInput] \<and>
   isPasswordField new_FieldDetector (Some passwordInput) \<and>
   usernameCandidates new_FieldDetector loginPage loginPage passwordInput \<noteq> []"
proof -
  let ?r = "\<lparr> form = Some loginFormEl, passwordField = passwordInput,
            usernameField = Some emailInput,
            formAction = Some ''https://example.org/login'',
            formMethod = Some ''post'' \<rparr>"
  have run: "getLoginForms new_FieldDetector loginPage (Some loginPage) = Inr [?r]"
    by code_simp
  note t = getLoginForms_records [OF run]
  from t have a: "detectPasswordFields new_FieldDetector loginPage (Some loginPage)
                    = [passwordInput]" by simp
  from t have "isPasswordField new_FieldDetector (Some (passwordField ?r)) \<and>
      (usernameField ?r = None \<longleftrightarrow>
         usernameCandidates new_FieldDetector loginPage loginPage (passwordField ?r) = [])"
    by simp
  then have b: "isPasswordField new_FieldDetector (Some passwordInput)"
    and c: "usernameCandidates new_FieldDetector loginPage loginPage passwordInput \<noteq> []"
    by simp_all
  from run a b c show ?thesis by (intro conjI)
qed

subsection \<open>C9: \<^verbatim>\<open>detectPasswordFields\<close> depends on the supplied document only\<close>

text \<open>
  C9. For every document snapshot, two calls of \<^verbatim>\<open>detectPasswordFields\<close> on that
  snapshot return equal ordered sequences, whatever the global document is at either
  call: the sequence is the sub-sequence, in document order, of the inputs and text areas
  that satisfy \<^verbatim>\<open>isPasswordField\<close>.
\<close>

theorem detectPasswordFields_idempotent:
  "detectPasswordFields this g1 (Some d) = detectPasswordFields this g2 (Some d) \<and>
   detectPasswordFields this g1 (Some d) =
     filter (\<lambda>f. isPasswordField this (Some f)) (querySelectorAll_input_textarea d)"
  by (simp add: detectPasswordFields_def detectPasswordFields_loop_filter)

subsection \<open>C10: exclude entries that contain a separator\<close>

text \<open>
  C10. An exclude entry that contains white space, a hyphen or an underscore is contained
  in no separator-stripped value; in the exclude list of the detector these are the
  entries \<^verbatim>\<open>otc-code\<close>, \<^verbatim>\<open>otp-code\<close>, \<^verbatim>\<open>security_code\<close> and \<^verbatim>\<open>verification code\<close>; for
  every field, \<^verbatim>\<open>hasDisqualifyingValue\<close> is the same with these entries removed from the
  list; and the field with type \<^verbatim>\<open>password\<close> and name \<^verbatim>\<open>security_code\<close> is a password
  field.
\<close>

theorem separated_exclude_entries_never_match:
  "(hasSeparator exclude \<longrightarrow>
      \<not> string_includes (removeSeparators (toLowerCase value)) exclude) \<and>
   filter hasSeparator (passwordFieldExcludeList new_FieldDetector) =
     [''otc-code'', ''otp-code'', ''security_code'', ''verification code''] \<and>
   hasDisqualifyingValue
     (this\<lparr>passwordFieldExcludeList :=
             filter (\<lambda>e. \<not> hasSeparator e) (passwordFieldExcludeList this)\<rparr>) field =
   hasDisqualifyingValue this field \<and>
   type securityCodeInput = ''password'' \<and> name securityCodeInput = ''security_code'' \<and>
   isPasswordField new_FieldDetector (Some securityCodeInput)"
proof (intro conjI impI)
  assume "hasSeparator exclude"
  then show "\<not> string_includes (removeSeparators (toLowerCase value)) exclude"
    by (rule excluded_by_separator)
next
  show "filter hasSeparator (passwordFieldExcludeList new_FieldDetector) =
     [''otc-code'', ''otp-code'', ''security_code'', ''verification code'']"
    by code_simp
next
  show "hasDisqualifyingValue
     (this\<lparr>passwordFieldExcludeList :=
             filter (\<lambda>e. \<not> hasSeparator e) (passwordFieldExcludeList this)\<rparr>) field =
   hasDisqualifyingValue this field"
    by (rule hasDisqualifyingValue_drop_separated)
next
  show "type securityCodeInput = ''password''" by (simp add: securityCodeInput_def)
  show "name securityCodeInput = ''security_code''" by (simp add: securityCodeInput_def)
  show "isPasswordField new_FieldDetector (Some securityCodeInput)" by code_simp
qed

text \<open>
  The entry \<^verbatim>\<open>security_code\<close> is not contained in the stripped name \<^verbatim>\<open>securitycode\<close>, so
  the field is not disqualified.
\<close>

theorem separated_exclude_entries_never_match_witness:
  "hasSeparator ''security_code'' \<and>
   removeSeparators (toLowerCase ''security_code'') = ''securitycode'' \<and>
   \<not> string_includes (removeSeparators (toLowerCase ''security_code'')) ''security_code'' \<and>
   \<not> hasDisqualifyingValue new_FieldDetector securityCodeInput"
proof -
  have a: "hasSeparator ''security_code''" by code_simp
  have b: "removeSeparators (toLowerCase ''security_code'') = ''securitycode''" by code_simp
  have c: "\<not> hasDisqualifyingValue new_FieldDetector securityCodeInput" by code_simp
  from separated_exclude_entries_never_match
    [of "''security_code''" "''security_code''" new_FieldDetector securityCodeInput]
  have "hasSeparator ''security_code'' \<longrightarrow>
      \<not> string_includes (removeSeparators (toLowerCase ''security_code'')) ''security_code''"
    by (rule conjunct1)
  with a have "\<not> string_includes (removeSeparators (toLowerCase ''security_code''))
                  ''security_code''" by (rule rev_mp)
  with a b c show ?thesis by (intro conjI)
qed

end
